theory Spec2Isabelle
  imports Main "HOL-Library.Sublist"
begin

section \<open>Values exchanged with the browser\<close>

text \<open>
  The two source files are \<^verbatim>\<open>src/utils/webrtc.ts\<close> (the classes \<^verbatim>\<open>WebRTCManager\<close> and
  \<^verbatim>\<open>WebSocketManager\<close>) and \<^verbatim>\<open>src/components/VideoCall.tsx\<close> (the component that owns
  one instance of each). Every class is a record of its fields and every method a function
  on that record. A method returns, besides its result and the updated record, the list of
  calls it made on browser objects, in the order it made them.

  An \<^verbatim>\<open>async\<close> method is run to completion: each \<^verbatim>\<open>await\<close> resolves or rejects before
  the next statement, and no other event is handled in between.

  The component imports \<^verbatim>\<open>WebSocketManager\<close> from \<^verbatim>\<open>@/utils/websocket\<close>; the class of that
  name is the one \<^verbatim>\<open>webrtc.ts\<close> defines, and it is the one modelled. What only concerns the
  page is left out: the video elements, the \<^verbatim>\<open>ontrack\<close> callback, the audio and video
  toggles and the transcript download.
\<close>

datatype sdp_type = SdpOffer | SdpAnswer

text \<open>\<^verbatim>\<open>RTCSessionDescriptionInit\<close>: the blob returned by \<^verbatim>\<open>createOffer\<close> and \<^verbatim>\<open>createAnswer\<close>.\<close>

record RTCSessionDescriptionInit =
  sdpType :: sdp_type
  sdp :: string

record RTCIceCandidateInit =
  candidate :: string
  sdpMLineIndex :: nat

text \<open>
  \<^verbatim>\<open>SignalingMessage.data\<close> is declared \<^verbatim>\<open>data?: any\<close>: it may be absent, a description, a
  candidate or anything else, and the code passes it on unchecked.
\<close>

datatype js_any =
    Undefined
  | Description RTCSessionDescriptionInit
  | Candidate RTCIceCandidateInit
  | Other string

datatype message_type = Offer | Answer | IceCandidate | JoinRoom | PeerJoined | PeerLeft

record SignalingMessage =
  type :: message_type
  roomId :: string
  data :: js_any

record CaptionMessage =
  speaker :: string
  text' :: string  \<comment> \<open>the field \<^verbatim>\<open>text\<close>\<close>
  translation :: string
  timestamp :: nat
  language :: string

text \<open>
  The text of a WebSocket frame is either the JSON form of a value or text that is not
  JSON. \<^verbatim>\<open>JSON.stringify\<close> produces the first; \<^verbatim>\<open>JSON.parse\<close> throws a
  \<^verbatim>\<open>SyntaxError\<close> on the second.
\<close>

datatype 'a wire = Json 'a | NotJson string

text \<open>Exceptions of the browser's objects, by name.\<close>

datatype rejection = InvalidStateError | InvalidAccessError | OperationError | TypeError

datatype js_error =
    NotInitialized  \<comment> \<open>\<^verbatim>\<open>new Error('Peer connection not initialized')\<close>\<close>
  | Rejected rejection  \<comment> \<open>an exception of the browser: a rejected promise, a constructor that throws\<close>
  | SyntaxError  \<comment> \<open>thrown by \<^verbatim>\<open>JSON.parse\<close>\<close>

definition JSON_stringify :: "'a \<Rightarrow> 'a wire" where
  "JSON_stringify v = Json v"

fun JSON_parse :: "'a wire \<Rightarrow> js_error + 'a" where
  "JSON_parse (Json v) = Inr v"
| "JSON_parse (NotJson t) = Inl SyntaxError"

datatype media_kind = AudioTrack | VideoTrack

record MediaStreamTrack =
  trackId :: nat
  kind :: media_kind

datatype ready_state = CONNECTING | OPEN | CLOSING | CLOSED

record WebSocket =
  url :: string
  readyState :: ready_state

text \<open>
  \<^verbatim>\<open>WebSocket.close()\<close> of the browser: on a socket that is connecting or open it starts the
  closing handshake; on a socket that is closing or closed it does nothing.
\<close>

definition ws_close :: "WebSocket \<Rightarrow> WebSocket" where
  "ws_close w = (if readyState w = CLOSING \<or> readyState w = CLOSED then w
                 else w\<lparr>readyState := CLOSING\<rparr>)"

datatype channel = Signaling | Captions

text \<open>The calls made on browser objects.\<close>

datatype effect =
    TrackStop nat  \<comment> \<open>\<^verbatim>\<open>track.stop()\<close>\<close>
  | PcNew  \<comment> \<open>\<^verbatim>\<open>new RTCPeerConnection(configuration)\<close>\<close>
  | PcAddTrack nat
  | PcCreateOffer
  | PcCreateAnswer
  | PcSetLocalDescription RTCSessionDescriptionInit
  | PcSetRemoteDescription RTCSessionDescriptionInit
  | PcAddIceCandidate RTCIceCandidateInit
  | PcClose
  | WsNew channel string  \<comment> \<open>\<^verbatim>\<open>new WebSocket(url)\<close>\<close>
  | WsSendSignaling "SignalingMessage wire"  \<comment> \<open>\<^verbatim>\<open>signalingWs.send(text)\<close>\<close>
  | WsSendAudio "nat list"  \<comment> \<open>\<^verbatim>\<open>captionsWs.send(audioBlob)\<close>\<close>
  | WsClose channel
  | ConsoleLog string
  | ConsoleError js_error
  | Toast string

text \<open>
  The browser's \<^verbatim>\<open>RTCPeerConnection\<close> is not code of the repository. The methods below
  take its behaviour as a parameter: a state type \<open>'pc\<close> and, for each method the code
  calls, a function that gives the outcome of the call and the state after it.
\<close>

record 'pc platform =
  new_pc :: "'pc"
  pc_addTrack :: "MediaStreamTrack \<Rightarrow> 'pc \<Rightarrow> 'pc"
  pc_createOffer :: "'pc \<Rightarrow> (rejection + RTCSessionDescriptionInit) \<times> 'pc"
  pc_createAnswer :: "'pc \<Rightarrow> (rejection + RTCSessionDescriptionInit) \<times> 'pc"
  pc_setLocalDescription :: "RTCSessionDescriptionInit \<Rightarrow> 'pc \<Rightarrow> rejection option \<times> 'pc"
  pc_setRemoteDescription :: "RTCSessionDescriptionInit \<Rightarrow> 'pc \<Rightarrow> rejection option \<times> 'pc"
  pc_addIceCandidate :: "RTCIceCandidateInit \<Rightarrow> 'pc \<Rightarrow> rejection option \<times> 'pc"

text \<open>
  The constructors \<^verbatim>\<open>new RTCSessionDescription(description)\<close> and
  \<^verbatim>\<open>new RTCIceCandidate(candidate)\<close>, which the manager evaluates on the payload before it
  calls the peer connection. As the WebRTC recommendation defines them, the first throws a
  \<^verbatim>\<open>TypeError\<close> unless its argument is a dictionary with a \<^verbatim>\<open>type\<close>, the second unless its
  argument is a dictionary that names a media line; an absent payload and a string are
  refused by both. They read and change no browser object, so they are not in the list of
  calls.
\<close>

definition new_RTCSessionDescription :: "js_any \<Rightarrow> rejection + RTCSessionDescriptionInit" where
  "new_RTCSessionDescription x =
     (case x of
        Description d \<Rightarrow> Inr d
      | Undefined \<Rightarrow> Inl TypeError
      | Candidate c \<Rightarrow> Inl TypeError
      | Other t \<Rightarrow> Inl TypeError)"

definition new_RTCIceCandidate :: "js_any \<Rightarrow> rejection + RTCIceCandidateInit" where
  "new_RTCIceCandidate x =
     (case x of
        Candidate c \<Rightarrow> Inr c
      | Undefined \<Rightarrow> Inl TypeError
      | Description d \<Rightarrow> Inl TypeError
      | Other t \<Rightarrow> Inl TypeError)"


section \<open>WebRTCManager\<close>

record 'pc WebRTCManager =
  peerConnection :: "'pc option"
  localStream :: "MediaStreamTrack list option"

definition new_WebRTCManager :: "'pc WebRTCManager" where
  "new_WebRTCManager = \<lparr>peerConnection = None, localStream = None\<rparr>"

text \<open>
  \<^verbatim>\<open>getLocalStream\<close>: the first argument is what \<^verbatim>\<open>getUserMedia\<close> answers, the tracks of
  the stream or a rejection, which the method logs and throws again.
\<close>

definition getLocalStream ::
  "rejection + MediaStreamTrack list \<Rightarrow> 'pc WebRTCManager
    \<Rightarrow> (js_error + MediaStreamTrack list) \<times> effect list \<times> 'pc WebRTCManager" where
  "getLocalStream userMedia m =
     (case userMedia of
        Inl e \<Rightarrow> (Inl (Rejected e), [ConsoleError (Rejected e)], m)
      | Inr stream \<Rightarrow> (Inr stream, [], m\<lparr>localStream := Some stream\<rparr>))"

definition createPeerConnection :: "'pc platform \<Rightarrow> 'pc WebRTCManager \<Rightarrow> effect list \<times> 'pc WebRTCManager" where
  "createPeerConnection P m =
     (case localStream m of
        None \<Rightarrow> ([PcNew], m\<lparr>peerConnection := Some (new_pc P)\<rparr>)
      | Some stream \<Rightarrow>
          (PcNew # map (\<lambda>track. PcAddTrack (trackId track)) stream,
           m\<lparr>peerConnection := Some (foldl (\<lambda>pc track. pc_addTrack P track pc) (new_pc P) stream)\<rparr>))"

definition createOffer ::
  "'pc platform \<Rightarrow> 'pc WebRTCManager
    \<Rightarrow> (js_error + RTCSessionDescriptionInit) \<times> effect list \<times> 'pc WebRTCManager" where
  "createOffer P m =
     (case peerConnection m of
        None \<Rightarrow> (Inl NotInitialized, [], m)
      | Some pc \<Rightarrow>
          (case pc_createOffer P pc of
             (Inl e, pc1) \<Rightarrow> (Inl (Rejected e), [PcCreateOffer], m\<lparr>peerConnection := Some pc1\<rparr>)
           | (Inr offer, pc1) \<Rightarrow>
               (case pc_setLocalDescription P offer pc1 of
                  (Some e, pc2) \<Rightarrow>
                    (Inl (Rejected e), [PcCreateOffer, PcSetLocalDescription offer],
                     m\<lparr>peerConnection := Some pc2\<rparr>)
                | (None, pc2) \<Rightarrow>
                    (Inr offer, [PcCreateOffer, PcSetLocalDescription offer],
                     m\<lparr>peerConnection := Some pc2\<rparr>))))"

definition createAnswer ::
  "'pc platform \<Rightarrow> 'pc WebRTCManager
    \<Rightarrow> (js_error + RTCSessionDescriptionInit) \<times> effect list \<times> 'pc WebRTCManager" where
  "createAnswer P m =
     (case peerConnection m of
        None \<Rightarrow> (Inl NotInitialized, [], m)
      | Some pc \<Rightarrow>
          (case pc_createAnswer P pc of
             (Inl e, pc1) \<Rightarrow> (Inl (Rejected e), [PcCreateAnswer], m\<lparr>peerConnection := Some pc1\<rparr>)
           | (Inr answer, pc1) \<Rightarrow>
               (case pc_setLocalDescription P answer pc1 of
                  (Some e, pc2) \<Rightarrow>
                    (Inl (Rejected e), [PcCreateAnswer, PcSetLocalDescription answer],
                     m\<lparr>peerConnection := Some pc2\<rparr>)
                | (None, pc2) \<Rightarrow>
                    (Inr answer, [PcCreateAnswer, PcSetLocalDescription answer],
                     m\<lparr>peerConnection := Some pc2\<rparr>))))"

definition setRemoteDescription ::
  "'pc platform \<Rightarrow> js_any \<Rightarrow> 'pc WebRTCManager
    \<Rightarrow> (js_error + unit) \<times> effect list \<times> 'pc WebRTCManager" where
  "setRemoteDescription P description m =
     (case peerConnection m of
        None \<Rightarrow> (Inl NotInitialized, [], m)
      | Some pc \<Rightarrow>
          (case new_RTCSessionDescription description of
             Inl e \<Rightarrow> (Inl (Rejected e), [], m)
           | Inr d \<Rightarrow>
               (case pc_setRemoteDescription P d pc of
                  (Some e, pc1) \<Rightarrow>
                    (Inl (Rejected e), [PcSetRemoteDescription d], m\<lparr>peerConnection := Some pc1\<rparr>)
                | (None, pc1) \<Rightarrow>
                    (Inr (), [PcSetRemoteDescription d], m\<lparr>peerConnection := Some pc1\<rparr>))))"

definition addIceCandidate ::
  "'pc platform \<Rightarrow> js_any \<Rightarrow> 'pc WebRTCManager
    \<Rightarrow> (js_error + unit) \<times> effect list \<times> 'pc WebRTCManager" where
  "addIceCandidate P cand m =
     (case peerConnection m of
        None \<Rightarrow> (Inl NotInitialized, [], m)
      | Some pc \<Rightarrow>
          (case new_RTCIceCandidate cand of
             Inl e \<Rightarrow> (Inl (Rejected e), [], m)
           | Inr c \<Rightarrow>
               (case pc_addIceCandidate P c pc of
                  (Some e, pc1) \<Rightarrow>
                    (Inl (Rejected e), [PcAddIceCandidate c], m\<lparr>peerConnection := Some pc1\<rparr>)
                | (None, pc1) \<Rightarrow>
                    (Inr (), [PcAddIceCandidate c], m\<lparr>peerConnection := Some pc1\<rparr>))))"

text \<open>
  \<^verbatim>\<open>WebRTCManager.cleanup\<close>: stop every track of the local stream, close the peer
  connection, then forget both.
\<close>

definition WebRTCManager_cleanup :: "'pc WebRTCManager \<Rightarrow> effect list \<times> 'pc WebRTCManager" where
  "WebRTCManager_cleanup m =
     ((case localStream m of None \<Rightarrow> [] | Some stream \<Rightarrow> map (\<lambda>track. TrackStop (trackId track)) stream)
      @ (case peerConnection m of None \<Rightarrow> [] | Some pc \<Rightarrow> [PcClose]),
      m\<lparr>localStream := None, peerConnection := None\<rparr>)"


section \<open>WebSocketManager\<close>

record WebSocketManager =
  signalingWs :: "WebSocket option"
  captionsWs :: "WebSocket option"
  backendUrl :: string

definition new_WebSocketManager :: "string \<Rightarrow> WebSocketManager" where
  "new_WebSocketManager b = \<lparr>signalingWs = None, captionsWs = None, backendUrl = b\<rparr>"

text \<open>\<^verbatim>\<open>ws?.readyState === WebSocket.OPEN\<close>, false for a null socket.\<close>

definition is_open :: "WebSocket option \<Rightarrow> bool" where
  "is_open w = (case w of None \<Rightarrow> False | Some ws \<Rightarrow> readyState ws = OPEN)"

definition sendSignaling :: "SignalingMessage \<Rightarrow> WebSocketManager \<Rightarrow> effect list \<times> WebSocketManager" where
  "sendSignaling message w =
     (if is_open (signalingWs w) then ([WsSendSignaling (JSON_stringify message)], w)
      else ([], w))"

definition sendAudioChunk :: "nat list \<Rightarrow> WebSocketManager \<Rightarrow> effect list \<times> WebSocketManager" where
  "sendAudioChunk audioBlob w =
     (if is_open (captionsWs w) then ([WsSendAudio audioBlob], w) else ([], w))"

definition connectSignaling :: "WebSocketManager \<Rightarrow> effect list \<times> WebSocketManager" where
  "connectSignaling w =
     ([WsNew Signaling (backendUrl w @ ''/ws/signaling'')],
      w\<lparr>signalingWs := Some \<lparr>url = backendUrl w @ ''/ws/signaling'', readyState = CONNECTING\<rparr>\<rparr>)"

definition connectCaptions :: "string \<Rightarrow> WebSocketManager \<Rightarrow> effect list \<times> WebSocketManager" where
  "connectCaptions room w =
     ([WsNew Captions (backendUrl w @ ''/ws/captions/'' @ room)],
      w\<lparr>captionsWs := Some \<lparr>url = backendUrl w @ ''/ws/captions/'' @ room, readyState = CONNECTING\<rparr>\<rparr>)"

text \<open>
  The socket's \<^verbatim>\<open>open\<close> event: the browser has set \<^verbatim>\<open>readyState\<close> to \<^verbatim>\<open>OPEN\<close>, then runs
  \<^verbatim>\<open>signalingWs.onopen\<close>, which logs and sends the \<^verbatim>\<open>join-room\<close> envelope.
\<close>

definition signaling_onopen :: "string \<Rightarrow> WebSocketManager \<Rightarrow> effect list \<times> WebSocketManager" where
  "signaling_onopen room w =
     (let w1 = w\<lparr>signalingWs := map_option (\<lambda>ws. ws\<lparr>readyState := OPEN\<rparr>) (signalingWs w)\<rparr>
      in case sendSignaling \<lparr>type = JoinRoom, roomId = room, data = Undefined\<rparr> w1 of
           (es, w2) \<Rightarrow> (ConsoleLog ''Signaling WebSocket connected'' # es, w2))"

definition captions_onopen :: "WebSocketManager \<Rightarrow> effect list \<times> WebSocketManager" where
  "captions_onopen w =
     ([ConsoleLog ''Captions WebSocket connected''],
      w\<lparr>captionsWs := map_option (\<lambda>ws. ws\<lparr>readyState := OPEN\<rparr>) (captionsWs w)\<rparr>)"

definition disconnect :: "WebSocketManager \<Rightarrow> effect list \<times> WebSocketManager" where
  "disconnect w =
     ((case signalingWs w of None \<Rightarrow> [] | Some ws \<Rightarrow> [WsClose Signaling])
      @ (case captionsWs w of None \<Rightarrow> [] | Some ws \<Rightarrow> [WsClose Captions]),
      w\<lparr>signalingWs := map_option ws_close (signalingWs w),
        captionsWs := map_option ws_close (captionsWs w)\<rparr>)"


section \<open>The VideoCall component\<close>

datatype connection_status = connecting | connected | disconnected

record 'pc VideoCall =
  webrtcRef :: "'pc WebRTCManager"
  wsRef :: WebSocketManager
  isConnected :: bool
  connectionStatus :: connection_status
  captions :: "CaptionMessage list"

definition new_VideoCall :: "string \<Rightarrow> 'pc VideoCall" where
  "new_VideoCall b =
     \<lparr>webrtcRef = new_WebRTCManager, wsRef = new_WebSocketManager b, isConnected = False,
      connectionStatus = connecting, captions = []\<rparr>"

text \<open>
  \<^verbatim>\<open>handleSignalingMessage\<close>: a \<^verbatim>\<open>switch\<close> on \<^verbatim>\<open>message.type\<close> inside a \<^verbatim>\<open>try\<close> whose
  \<^verbatim>\<open>catch\<close> logs the error. \<open>room\<close> is the component's \<^verbatim>\<open>roomId\<close> property. There is no
  case for \<^verbatim>\<open>join-room\<close>.
\<close>

definition handleSignalingMessage ::
  "'pc platform \<Rightarrow> string \<Rightarrow> SignalingMessage \<Rightarrow> 'pc VideoCall \<Rightarrow> effect list \<times> 'pc VideoCall" where
  "handleSignalingMessage P room message s =
     (case type message of
        PeerJoined \<Rightarrow>
          (case createOffer P (webrtcRef s) of
             (Inl error, es, m) \<Rightarrow> (es @ [ConsoleError error], s\<lparr>webrtcRef := m\<rparr>)
           | (Inr offer, es, m) \<Rightarrow>
               (case sendSignaling \<lparr>type = Offer, roomId = room, data = Description offer\<rparr> (wsRef s) of
                  (es2, w) \<Rightarrow> (es @ es2, s\<lparr>webrtcRef := m, wsRef := w\<rparr>)))
      | Offer \<Rightarrow>
          (case setRemoteDescription P (data message) (webrtcRef s) of
             (Inl error, es, m) \<Rightarrow> (es @ [ConsoleError error], s\<lparr>webrtcRef := m\<rparr>)
           | (Inr u, es, m) \<Rightarrow>
               (case createAnswer P m of
                  (Inl error, es2, m2) \<Rightarrow> (es @ es2 @ [ConsoleError error], s\<lparr>webrtcRef := m2\<rparr>)
                | (Inr answer, es2, m2) \<Rightarrow>
                    (case sendSignaling \<lparr>type = Answer, roomId = room, data = Description answer\<rparr>
                            (wsRef s) of
                       (es3, w) \<Rightarrow> (es @ es2 @ es3, s\<lparr>webrtcRef := m2, wsRef := w\<rparr>))))
      | Answer \<Rightarrow>
          (case setRemoteDescription P (data message) (webrtcRef s) of
             (Inl error, es, m) \<Rightarrow> (es @ [ConsoleError error], s\<lparr>webrtcRef := m\<rparr>)
           | (Inr u, es, m) \<Rightarrow> (es, s\<lparr>webrtcRef := m\<rparr>))
      | IceCandidate \<Rightarrow>
          (case addIceCandidate P (data message) (webrtcRef s) of
             (Inl error, es, m) \<Rightarrow> (es @ [ConsoleError error], s\<lparr>webrtcRef := m\<rparr>)
           | (Inr u, es, m) \<Rightarrow> (es, s\<lparr>webrtcRef := m\<rparr>))
      | PeerLeft \<Rightarrow>
          ([Toast ''Peer disconnected''], s\<lparr>isConnected := False, connectionStatus := disconnected\<rparr>)
      | JoinRoom \<Rightarrow> ([], s))"

text \<open>Handling a sequence of envelopes, one after the other.\<close>

fun handleSignalingMessages ::
  "'pc platform \<Rightarrow> string \<Rightarrow> SignalingMessage list \<Rightarrow> 'pc VideoCall \<Rightarrow> effect list \<times> 'pc VideoCall" where
  "handleSignalingMessages P room [] s = ([], s)"
| "handleSignalingMessages P room (message # rest) s =
     (case handleSignalingMessage P room message s of
        (es, s1) \<Rightarrow>
          (case handleSignalingMessages P room rest s1 of (es2, s2) \<Rightarrow> (es @ es2, s2)))"

definition handleCaption :: "CaptionMessage \<Rightarrow> 'pc VideoCall \<Rightarrow> 'pc VideoCall" where
  "handleCaption caption s = s\<lparr>captions := captions s @ [caption]\<rparr>"

text \<open>
  \<^verbatim>\<open>signalingWs.onmessage\<close> and \<^verbatim>\<open>captionsWs.onmessage\<close>, with the handlers that
  \<^verbatim>\<open>initializeCall\<close> registers. Neither has a \<^verbatim>\<open>try\<close>: what \<^verbatim>\<open>JSON.parse\<close> throws leaves
  the handler.
\<close>

definition signaling_onmessage ::
  "'pc platform \<Rightarrow> string \<Rightarrow> SignalingMessage wire \<Rightarrow> 'pc VideoCall
    \<Rightarrow> (js_error + unit) \<times> effect list \<times> 'pc VideoCall" where
  "signaling_onmessage P room event_data s =
     (case JSON_parse event_data of
        Inl e \<Rightarrow> (Inl e, [], s)
      | Inr message \<Rightarrow>
          (case handleSignalingMessage P room message s of (es, s1) \<Rightarrow> (Inr (), es, s1)))"

definition captions_onmessage ::
  "CaptionMessage wire \<Rightarrow> 'pc VideoCall \<Rightarrow> (js_error + unit) \<times> effect list \<times> 'pc VideoCall" where
  "captions_onmessage event_data s =
     (case JSON_parse event_data of
        Inl e \<Rightarrow> (Inl e, [], s)
      | Inr caption \<Rightarrow> (Inr (), [], handleCaption caption s))"

text \<open>The two \<^verbatim>\<open>captions.filter\<close> calls that feed the caption overlays.\<close>

definition youCaptions :: "'pc VideoCall \<Rightarrow> CaptionMessage list" where
  "youCaptions s = filter (\<lambda>c. speaker c = ''You'') (captions s)"

definition remoteCaptions :: "'pc VideoCall \<Rightarrow> CaptionMessage list" where
  "remoteCaptions s = filter (\<lambda>c. speaker c \<noteq> ''You'') (captions s)"

text \<open>
  The \<^verbatim>\<open>onIceCandidate\<close> callback given to \<^verbatim>\<open>createPeerConnection\<close>; the manager calls it
  only for a non-null \<^verbatim>\<open>event.candidate\<close>.
\<close>

definition onicecandidate ::
  "string \<Rightarrow> RTCIceCandidateInit option \<Rightarrow> 'pc VideoCall \<Rightarrow> effect list \<times> 'pc VideoCall" where
  "onicecandidate room event_candidate s =
     (case event_candidate of
        None \<Rightarrow> ([], s)
      | Some c \<Rightarrow>
          (case sendSignaling \<lparr>type = IceCandidate, roomId = room, data = Candidate c\<rparr> (wsRef s) of
             (es, w) \<Rightarrow> (es, s\<lparr>wsRef := w\<rparr>)))"

text \<open>
  \<^verbatim>\<open>initializeCall\<close>: local media, the two sockets, the peer connection. When
  \<^verbatim>\<open>getLocalStream\<close> throws, the \<^verbatim>\<open>catch\<close> marks the call disconnected and nothing else is
  set up.
\<close>

definition initializeCall ::
  "'pc platform \<Rightarrow> rejection + MediaStreamTrack list \<Rightarrow> string \<Rightarrow> 'pc VideoCall
    \<Rightarrow> effect list \<times> 'pc VideoCall" where
  "initializeCall P userMedia room s =
     (case getLocalStream userMedia (webrtcRef s) of
        (Inl error, es, m) \<Rightarrow>
          (es @ [ConsoleError error, Toast ''Connection error''],
           s\<lparr>webrtcRef := m, connectionStatus := disconnected\<rparr>)
      | (Inr stream, es, m) \<Rightarrow>
          (case connectSignaling (wsRef s) of
             (es1, w1) \<Rightarrow>
               (case connectCaptions room w1 of
                  (es2, w2) \<Rightarrow>
                    (case createPeerConnection P m of
                       (es3, m3) \<Rightarrow>
                         (es @ es1 @ es2 @ es3,
                          s\<lparr>webrtcRef := m3, wsRef := w2, connectionStatus := connecting\<rparr>)))))"

text \<open>
  The component's \<^verbatim>\<open>cleanup\<close>, run when the call ends and when the component unmounts.
\<close>

definition cleanup :: "'pc VideoCall \<Rightarrow> effect list \<times> 'pc VideoCall" where
  "cleanup s =
     (case WebRTCManager_cleanup (webrtcRef s) of
        (es, m) \<Rightarrow>
          (case disconnect (wsRef s) of
             (es2, w) \<Rightarrow>
               (es @ es2,
                s\<lparr>webrtcRef := m, wsRef := w, isConnected := False,
                  connectionStatus := disconnected\<rparr>)))"


section \<open>A peer connection to run the code on\<close>

text \<open>
  One behaviour of \<^verbatim>\<open>RTCPeerConnection\<close>, after the signalling states of the WebRTC
  recommendation, for running the code on concrete inputs. Descriptions of type
  \<^verbatim>\<open>pranswer\<close> and \<^verbatim>\<open>rollback\<close> are left out. \<^verbatim>\<open>createOffer\<close> is accepted in the states
  \<^verbatim>\<open>stable\<close> and \<^verbatim>\<open>have-local-offer\<close>, \<^verbatim>\<open>createAnswer\<close> in \<^verbatim>\<open>have-remote-offer\<close>; a remote
  offer that arrives in \<^verbatim>\<open>have-local-offer\<close> rolls the local offer back; a candidate is
  rejected with \<^verbatim>\<open>InvalidStateError\<close> while there is no remote description.
\<close>

datatype signaling_state = Stable | HaveLocalOffer | HaveRemoteOffer

record RTCPeerConnection =
  signalingState :: signaling_state
  remoteDescription :: "RTCSessionDescriptionInit option"
  iceCandidates :: "RTCIceCandidateInit list"  \<comment> \<open>the remote candidates applied so far\<close>
  senders :: "nat list"

definition browser_createOffer ::
  "RTCPeerConnection \<Rightarrow> (rejection + RTCSessionDescriptionInit) \<times> RTCPeerConnection" where
  "browser_createOffer pc =
     (if signalingState pc = HaveRemoteOffer then (Inl InvalidStateError, pc)
      else (Inr \<lparr>sdpType = SdpOffer, sdp = ''v=0 offer''\<rparr>, pc))"

definition browser_createAnswer ::
  "RTCPeerConnection \<Rightarrow> (rejection + RTCSessionDescriptionInit) \<times> RTCPeerConnection" where
  "browser_createAnswer pc =
     (if signalingState pc = HaveRemoteOffer
      then (Inr \<lparr>sdpType = SdpAnswer, sdp = ''v=0 answer''\<rparr>, pc)
      else (Inl InvalidStateError, pc))"

definition browser_setLocalDescription ::
  "RTCSessionDescriptionInit \<Rightarrow> RTCPeerConnection \<Rightarrow> rejection option \<times> RTCPeerConnection" where
  "browser_setLocalDescription d pc =
     (case sdpType d of
        SdpOffer \<Rightarrow>
          (if signalingState pc = HaveRemoteOffer then (Some InvalidStateError, pc)
           else (None, pc\<lparr>signalingState := HaveLocalOffer\<rparr>))
      | SdpAnswer \<Rightarrow>
          (if signalingState pc = HaveRemoteOffer then (None, pc\<lparr>signalingState := Stable\<rparr>)
           else (Some InvalidStateError, pc)))"

definition browser_setRemoteDescription ::
  "RTCSessionDescriptionInit \<Rightarrow> RTCPeerConnection \<Rightarrow> rejection option \<times> RTCPeerConnection" where
  "browser_setRemoteDescription d pc =
     (case sdpType d of
        SdpOffer \<Rightarrow>
          (None, pc\<lparr>signalingState := HaveRemoteOffer, remoteDescription := Some d\<rparr>)
      | SdpAnswer \<Rightarrow>
          (if signalingState pc = HaveLocalOffer
           then (None, pc\<lparr>signalingState := Stable, remoteDescription := Some d\<rparr>)
           else (Some InvalidStateError, pc)))"

definition browser_addIceCandidate ::
  "RTCIceCandidateInit \<Rightarrow> RTCPeerConnection \<Rightarrow> rejection option \<times> RTCPeerConnection" where
  "browser_addIceCandidate c pc =
     (if remoteDescription pc = None then (Some InvalidStateError, pc)
      else (None, pc\<lparr>iceCandidates := iceCandidates pc @ [c]\<rparr>))"

definition browser :: "RTCPeerConnection platform" where
  "browser =
     \<lparr>new_pc = \<lparr>signalingState = Stable, remoteDescription = None, iceCandidates = [], senders = []\<rparr>,
      pc_addTrack = (\<lambda>track pc. pc\<lparr>senders := senders pc @ [trackId track]\<rparr>),
      pc_createOffer = browser_createOffer,
      pc_createAnswer = browser_createAnswer,
      pc_setLocalDescription = browser_setLocalDescription,
      pc_setRemoteDescription = browser_setRemoteDescription,
      pc_addIceCandidate = browser_addIceCandidate\<rparr>"

text \<open>
  A call in room \<^verbatim>\<open>room-1\<close> after \<^verbatim>\<open>initializeCall\<close> with a microphone and a camera track,
  and the same call once both sockets have opened.
\<close>

definition camera :: "MediaStreamTrack list" where
  "camera = [\<lparr>trackId = 1, kind = AudioTrack\<rparr>, \<lparr>trackId = 2, kind = VideoTrack\<rparr>]"

definition call_started :: "RTCPeerConnection VideoCall" where
  "call_started =
     snd (initializeCall browser (Inr camera) ''room-1'' (new_VideoCall ''ws://localhost:8000''))"

definition call_open :: "RTCPeerConnection VideoCall" where
  "call_open =
     call_started\<lparr>wsRef := snd (captions_onopen (snd (signaling_onopen ''room-1'' (wsRef call_started))))\<rparr>"


text \<open>A sequence of caption events, delivered one after the other.\<close>

definition handleCaptions :: "CaptionMessage list \<Rightarrow> 'pc VideoCall \<Rightarrow> 'pc VideoCall" where
  "handleCaptions events s = fold handleCaption events s"


text \<open>
  Two more sample calls: \<open>call_offering\<close> has handled \<^verbatim>\<open>peer-joined\<close> and sent its offer;
  \<open>call_answered\<close> has handled a remote offer and sent its answer.
\<close>

definition call_offering :: "RTCPeerConnection VideoCall" where
  "call_offering =
     snd (handleSignalingMessage browser ''room-1''
            \<lparr>type = PeerJoined, roomId = ''room-1'', data = Undefined\<rparr> call_open)"

definition call_answered :: "RTCPeerConnection VideoCall" where
  "call_answered =
     snd (handleSignalingMessage browser ''room-1''
            \<lparr>type = Offer, roomId = ''room-1'',
             data = Description \<lparr>sdpType = SdpOffer, sdp = ''v=0 remote''\<rparr>\<rparr> call_open)"

text \<open>
  Reading a list of calls: \<open>is_remote_input\<close> picks the calls that hand something received
  from the peer to the peer connection; \<open>remote_input\<close> is the one such call that an
  envelope stands for when its payload passes the constructor, and none when it does not;
  \<open>is_signaling_send\<close> picks the envelopes put on the signaling socket.
\<close>

definition is_remote_input :: "effect \<Rightarrow> bool" where
  "is_remote_input e =
     (case e of PcAddIceCandidate c \<Rightarrow> True | PcSetRemoteDescription d \<Rightarrow> True | _ \<Rightarrow> False)"

definition remote_input :: "SignalingMessage \<Rightarrow> effect list" where
  "remote_input message =
     (case type message of
        IceCandidate \<Rightarrow>
          (case new_RTCIceCandidate (data message) of Inl e \<Rightarrow> [] | Inr c \<Rightarrow> [PcAddIceCandidate c])
      | Offer \<Rightarrow>
          (case new_RTCSessionDescription (data message) of
             Inl e \<Rightarrow> [] | Inr d \<Rightarrow> [PcSetRemoteDescription d])
      | Answer \<Rightarrow>
          (case new_RTCSessionDescription (data message) of
             Inl e \<Rightarrow> [] | Inr d \<Rightarrow> [PcSetRemoteDescription d])
      | JoinRoom \<Rightarrow> []
      | PeerJoined \<Rightarrow> []
      | PeerLeft \<Rightarrow> [])"

definition is_signaling_send :: "effect \<Rightarrow> bool" where
  "is_signaling_send e = (case e of WsSendSignaling w \<Rightarrow> True | _ \<Rightarrow> False)"


section \<open>Caption transcripts\<close>

lemma captions_handleCaptions: "captions (handleCaptions events s) = captions s @ events"
  unfolding handleCaptions_def
  by (induction events arbitrary: s) (simp_all add: handleCaption_def)

text \<open>
  C9. Caption events are appended in receipt order to one list, which starts empty; the
  overlay for the local video shows the events whose speaker is \<^verbatim>\<open>You\<close> and the overlay for
  the remote video the others. Each of the two transcripts is the sequence of those events
  in the order they arrived, and every event is in exactly one of them. For the events
  You, Remote, You the first transcript is the two You events in their order and the second
  the one Remote event.
\<close>

theorem captions_partitioned_by_speaker:
  "youCaptions (handleCaptions events (new_VideoCall b)) = filter (\<lambda>c. speaker c = ''You'') events
   \<and> remoteCaptions (handleCaptions events (new_VideoCall b)) = filter (\<lambda>c. speaker c \<noteq> ''You'') events
   \<and> subseq (youCaptions (handleCaptions events (new_VideoCall b))) events
   \<and> subseq (remoteCaptions (handleCaptions events (new_VideoCall b))) events
   \<and> length (youCaptions (handleCaptions events (new_VideoCall b)))
       + length (remoteCaptions (handleCaptions events (new_VideoCall b))) = length events
   \<and> youCaptions (handleCaptions
         [e1\<lparr>speaker := ''You''\<rparr>, e2\<lparr>speaker := ''Remote''\<rparr>, e3\<lparr>speaker := ''You''\<rparr>] (new_VideoCall b))
       = [e1\<lparr>speaker := ''You''\<rparr>, e3\<lparr>speaker := ''You''\<rparr>]
   \<and> remoteCaptions (handleCaptions
         [e1\<lparr>speaker := ''You''\<rparr>, e2\<lparr>speaker := ''Remote''\<rparr>, e3\<lparr>speaker := ''You''\<rparr>] (new_VideoCall b))
       = [e2\<lparr>speaker := ''Remote''\<rparr>]"
  by (simp add: youCaptions_def remoteCaptions_def captions_handleCaptions new_VideoCall_def
      sum_length_filter_compl)


section \<open>The sample calls, evaluated\<close>

lemma call_started_eq:
  "call_started =
     \<lparr>webrtcRef = \<lparr>peerConnection = Some \<lparr>signalingState = Stable, remoteDescription = None,
                      iceCandidates = [], senders = [1, 2]\<rparr>,
                   localStream = Some camera\<rparr>,
      wsRef = \<lparr>signalingWs = Some \<lparr>url = ''ws://localhost:8000/ws/signaling'', readyState = CONNECTING\<rparr>,
               captionsWs = Some \<lparr>url = ''ws://localhost:8000/ws/captions/room-1'', readyState = CONNECTING\<rparr>,
               backendUrl = ''ws://localhost:8000''\<rparr>,
      isConnected = False, connectionStatus = connecting, captions = []\<rparr>"
  by (simp add: call_started_def initializeCall_def getLocalStream_def connectSignaling_def
      connectCaptions_def createPeerConnection_def new_VideoCall_def new_WebRTCManager_def
      new_WebSocketManager_def browser_def camera_def)

lemma call_open_eq:
  "call_open =
     \<lparr>webrtcRef = \<lparr>peerConnection = Some \<lparr>signalingState = Stable, remoteDescription = None,
                      iceCandidates = [], senders = [1, 2]\<rparr>,
                   localStream = Some camera\<rparr>,
      wsRef = \<lparr>signalingWs = Some \<lparr>url = ''ws://localhost:8000/ws/signaling'', readyState = OPEN\<rparr>,
               captionsWs = Some \<lparr>url = ''ws://localhost:8000/ws/captions/room-1'', readyState = OPEN\<rparr>,
               backendUrl = ''ws://localhost:8000''\<rparr>,
      isConnected = False, connectionStatus = connecting, captions = []\<rparr>"
  by (simp add: call_open_def call_started_eq signaling_onopen_def captions_onopen_def
      sendSignaling_def is_open_def)


lemmas manager_defs =
  createOffer_def createAnswer_def setRemoteDescription_def addIceCandidate_def
  new_RTCSessionDescription_def new_RTCIceCandidate_def

lemmas browser_defs =
  browser_def browser_createOffer_def browser_createAnswer_def browser_setLocalDescription_def
  browser_setRemoteDescription_def browser_addIceCandidate_def

lemma call_offering_eq:
  "call_offering =
     call_open\<lparr>webrtcRef := \<lparr>peerConnection = Some \<lparr>signalingState = HaveLocalOffer,
                   remoteDescription = None, iceCandidates = [], senders = [1, 2]\<rparr>,
                 localStream = Some camera\<rparr>\<rparr>"
  by (simp add: call_offering_def call_open_eq handleSignalingMessage_def manager_defs
      browser_defs sendSignaling_def is_open_def)

lemma call_answered_eq:
  "call_answered =
     call_open\<lparr>webrtcRef := \<lparr>peerConnection = Some \<lparr>signalingState = Stable,
                   remoteDescription = Some \<lparr>sdpType = SdpOffer, sdp = ''v=0 remote''\<rparr>,
                   iceCandidates = [], senders = [1, 2]\<rparr>,
                 localStream = Some camera\<rparr>\<rparr>"
  by (simp add: call_answered_def call_open_eq handleSignalingMessage_def manager_defs
      browser_defs sendSignaling_def is_open_def)


section \<open>Sending on a channel\<close>

lemma is_open_iff: "is_open x \<longleftrightarrow> (\<exists>ws. x = Some ws \<and> readyState ws = OPEN)"
  by (cases x) (simp_all add: is_open_def)

text \<open>
  C8. \<^verbatim>\<open>sendSignaling\<close> and \<^verbatim>\<open>sendAudioChunk\<close> call \<^verbatim>\<open>send\<close> on their socket exactly when
  the socket exists and its \<^verbatim>\<open>readyState\<close> is \<^verbatim>\<open>OPEN\<close>. Otherwise they make no call at all,
  return normally and leave the manager as it was: nothing is kept for later, so when the
  socket opens afterwards its \<^verbatim>\<open>open\<close> handler does what it would have done anyway.
\<close>

theorem send_dropped_unless_open:
  "(\<not> is_open (signalingWs w) \<longrightarrow> sendSignaling message w = ([], w))
   \<and> (is_open (signalingWs w) \<longrightarrow> sendSignaling message w = ([WsSendSignaling (Json message)], w))
   \<and> (\<not> is_open (captionsWs w) \<longrightarrow> sendAudioChunk audioBlob w = ([], w))
   \<and> (is_open (captionsWs w) \<longrightarrow> sendAudioChunk audioBlob w = ([WsSendAudio audioBlob], w))
   \<and> (is_open (signalingWs w) \<longleftrightarrow> (\<exists>ws. signalingWs w = Some ws \<and> readyState ws = OPEN))
   \<and> (is_open (captionsWs w) \<longleftrightarrow> (\<exists>ws. captionsWs w = Some ws \<and> readyState ws = OPEN))
   \<and> signaling_onopen room (snd (sendSignaling message w)) = signaling_onopen room w"
  by (simp add: sendSignaling_def sendAudioChunk_def JSON_stringify_def is_open_iff)

theorem send_dropped_unless_open_witness:
  "\<not> is_open (signalingWs (wsRef call_started))
   \<and> sendSignaling \<lparr>type = PeerLeft, roomId = ''room-1'', data = Undefined\<rparr> (wsRef call_started)
       = ([], wsRef call_started)
   \<and> is_open (signalingWs (wsRef call_open))
   \<and> sendSignaling \<lparr>type = PeerLeft, roomId = ''room-1'', data = Undefined\<rparr> (wsRef call_open)
       = ([WsSendSignaling (Json \<lparr>type = PeerLeft, roomId = ''room-1'', data = Undefined\<rparr>)], wsRef call_open)
   \<and> \<not> is_open (captionsWs (wsRef call_started))
   \<and> sendAudioChunk [1, 2, 3] (wsRef call_started) = ([], wsRef call_started)
   \<and> is_open (captionsWs (wsRef call_open))
   \<and> sendAudioChunk [1, 2, 3] (wsRef call_open) = ([WsSendAudio [1, 2, 3]], wsRef call_open)"
  using send_dropped_unless_open [of "wsRef call_started" "\<lparr>type = PeerLeft, roomId = ''room-1'', data = Undefined\<rparr>" "[1, 2, 3]"]
    send_dropped_unless_open [of "wsRef call_open" "\<lparr>type = PeerLeft, roomId = ''room-1'', data = Undefined\<rparr>" "[1, 2, 3]"]
  by (simp add: call_started_eq call_open_eq is_open_def)


section \<open>The null peer connection\<close>

text \<open>
  C10. Each of \<^verbatim>\<open>createOffer\<close>, \<^verbatim>\<open>createAnswer\<close>, \<^verbatim>\<open>setRemoteDescription\<close> and
  \<^verbatim>\<open>addIceCandidate\<close> throws \<^verbatim>\<open>Error('Peer connection not initialized')\<close> exactly when the
  field \<^verbatim>\<open>peerConnection\<close> is null, whatever the browser's peer connection does (what the
  browser throws is a different exception); when it is null the method makes no call and
  leaves the manager as it was. The field is null in a new manager and after \<^verbatim>\<open>cleanup\<close>,
  and not null after \<^verbatim>\<open>createPeerConnection\<close>.
\<close>

theorem not_initialized_iff_no_peer_connection:
  "(fst (createOffer P m) = Inl NotInitialized \<longleftrightarrow> peerConnection m = None)
   \<and> (fst (createAnswer P m) = Inl NotInitialized \<longleftrightarrow> peerConnection m = None)
   \<and> (fst (setRemoteDescription P d m) = Inl NotInitialized \<longleftrightarrow> peerConnection m = None)
   \<and> (fst (addIceCandidate P c m) = Inl NotInitialized \<longleftrightarrow> peerConnection m = None)
   \<and> createOffer P (m\<lparr>peerConnection := None\<rparr>) = (Inl NotInitialized, [], m\<lparr>peerConnection := None\<rparr>)
   \<and> createAnswer P (m\<lparr>peerConnection := None\<rparr>) = (Inl NotInitialized, [], m\<lparr>peerConnection := None\<rparr>)
   \<and> setRemoteDescription P d (m\<lparr>peerConnection := None\<rparr>)
       = (Inl NotInitialized, [], m\<lparr>peerConnection := None\<rparr>)
   \<and> addIceCandidate P c (m\<lparr>peerConnection := None\<rparr>)
       = (Inl NotInitialized, [], m\<lparr>peerConnection := None\<rparr>)
   \<and> peerConnection (new_WebRTCManager :: 'pc WebRTCManager) = None
   \<and> peerConnection (snd (createPeerConnection P m)) \<noteq> None
   \<and> peerConnection (snd (WebRTCManager_cleanup m)) = None"
  by (simp add: createOffer_def createAnswer_def setRemoteDescription_def addIceCandidate_def
      new_WebRTCManager_def createPeerConnection_def WebRTCManager_cleanup_def
      split: option.splits prod.splits sum.splits)



section \<open>Teardown\<close>

lemma fst_cleanup:
  "fst (cleanup s) =
     (case localStream (webrtcRef s) of None \<Rightarrow> [] | Some stream \<Rightarrow> map (\<lambda>track. TrackStop (trackId track)) stream)
     @ (case peerConnection (webrtcRef s) of None \<Rightarrow> [] | Some pc \<Rightarrow> [PcClose])
     @ (case signalingWs (wsRef s) of None \<Rightarrow> [] | Some ws \<Rightarrow> [WsClose Signaling])
     @ (case captionsWs (wsRef s) of None \<Rightarrow> [] | Some ws \<Rightarrow> [WsClose Captions])"
  by (simp add: cleanup_def WebRTCManager_cleanup_def disconnect_def)

lemma snd_cleanup:
  "snd (cleanup s) =
     s\<lparr>webrtcRef := (webrtcRef s)\<lparr>localStream := None, peerConnection := None\<rparr>,
       wsRef := (wsRef s)\<lparr>signalingWs := map_option ws_close (signalingWs (wsRef s)),
                           captionsWs := map_option ws_close (captionsWs (wsRef s))\<rparr>,
       isConnected := False, connectionStatus := disconnected\<rparr>"
  by (simp add: cleanup_def WebRTCManager_cleanup_def disconnect_def)

text \<open>
  C5, as the code has it. \<^verbatim>\<open>cleanup\<close> first stops every track of the local stream (the
  release of local media), then closes the peer connection, then closes the signaling
  socket, then the captions socket; a part that is null is skipped.
\<close>

theorem cleanup_releases_media_first:
  "fst (cleanup s) =
     (case localStream (webrtcRef s) of None \<Rightarrow> [] | Some stream \<Rightarrow> map (\<lambda>track. TrackStop (trackId track)) stream)
     @ (case peerConnection (webrtcRef s) of None \<Rightarrow> [] | Some pc \<Rightarrow> [PcClose])
     @ (case signalingWs (wsRef s) of None \<Rightarrow> [] | Some ws \<Rightarrow> [WsClose Signaling])
     @ (case captionsWs (wsRef s) of None \<Rightarrow> [] | Some ws \<Rightarrow> [WsClose Captions])"
  by (rule fst_cleanup)

text \<open>
  C5 as stated (peer connection, then both sockets, then local media) fails on the open
  sample call: the two tracks are stopped before the peer connection is closed.
\<close>

theorem cleanup_order_counterexample:
  "fst (cleanup call_open) = [TrackStop 1, TrackStop 2, PcClose, WsClose Signaling, WsClose Captions]
   \<and> fst (cleanup call_open) \<noteq> [PcClose, WsClose Signaling, WsClose Captions, TrackStop 1, TrackStop 2]"
  by (simp add: fst_cleanup call_open_eq camera_def)

lemma ws_close_idem: "ws_close (ws_close w) = ws_close w"
  by (simp add: ws_close_def)

lemma map_option_ws_close_idem: "map_option ws_close (map_option ws_close x) = map_option ws_close x"
  by (cases x) (simp_all add: ws_close_idem)

lemma readyState_ws_close: "readyState (ws_close w) = CLOSING \<or> readyState (ws_close w) = CLOSED"
  by (simp add: ws_close_def)

text \<open>
  C7. \<^verbatim>\<open>cleanup\<close> cannot throw, and running it a second time leaves the state the first run
  produced. The second run stops no track and closes no peer connection, since the first
  run set both fields to null; all it does is call \<^verbatim>\<open>close()\<close> again on the sockets, which
  the first run left closing or closed, and on such a socket \<^verbatim>\<open>close()\<close> does nothing.
\<close>

theorem cleanup_twice:
  "snd (cleanup (snd (cleanup s))) = snd (cleanup s)
   \<and> fst (cleanup (snd (cleanup s))) =
       (case signalingWs (wsRef s) of None \<Rightarrow> [] | Some ws \<Rightarrow> [WsClose Signaling])
       @ (case captionsWs (wsRef s) of None \<Rightarrow> [] | Some ws \<Rightarrow> [WsClose Captions])
   \<and> set (fst (cleanup (snd (cleanup s)))) \<subseteq> {WsClose Signaling, WsClose Captions}
   \<and> map_option readyState (signalingWs (wsRef (snd (cleanup s)))) \<in> {None, Some CLOSING, Some CLOSED}
   \<and> map_option readyState (captionsWs (wsRef (snd (cleanup s)))) \<in> {None, Some CLOSING, Some CLOSED}"
proof -
  have state: "snd (cleanup (snd (cleanup s))) = snd (cleanup s)"
    by (simp add: snd_cleanup map_option_ws_close_idem)
  have calls: "fst (cleanup (snd (cleanup s))) =
       (case signalingWs (wsRef s) of None \<Rightarrow> [] | Some ws \<Rightarrow> [WsClose Signaling])
       @ (case captionsWs (wsRef s) of None \<Rightarrow> [] | Some ws \<Rightarrow> [WsClose Captions])"
    by (simp add: fst_cleanup snd_cleanup split: option.splits)
  have sub: "set (fst (cleanup (snd (cleanup s)))) \<subseteq> {WsClose Signaling, WsClose Captions}"
    unfolding calls by (auto split: option.splits)
  have sig: "map_option readyState (signalingWs (wsRef (snd (cleanup s)))) \<in> {None, Some CLOSING, Some CLOSED}"
    using readyState_ws_close by (cases "signalingWs (wsRef s)") (auto simp: snd_cleanup)
  have cap: "map_option readyState (captionsWs (wsRef (snd (cleanup s)))) \<in> {None, Some CLOSING, Some CLOSED}"
    using readyState_ws_close by (cases "captionsWs (wsRef s)") (auto simp: snd_cleanup)
  from state calls sub sig cap show ?thesis by blast
qed


section \<open>Creating an offer\<close>

text \<open>
  C3, as the code has it. \<^verbatim>\<open>createOffer\<close> keeps no negotiation state and checks none. It
  returns the offer exactly when a peer connection exists and the browser accepts both
  \<^verbatim>\<open>createOffer\<close> and \<^verbatim>\<open>setLocalDescription\<close>; it throws exactly in three cases: the peer
  connection is null (\<^verbatim>\<open>Peer connection not initialized\<close>), or the browser rejects one of
  the two calls (the browser's own exception).
\<close>

theorem createOffer_succeeds_iff_platform_accepts:
  "((fst (createOffer P m) = Inr offer)
      = (\<exists>pc pc1 pc2. peerConnection m = Some pc \<and> pc_createOffer P pc = (Inr offer, pc1)
           \<and> pc_setLocalDescription P offer pc1 = (None, pc2)))
   \<and> ((fst (createOffer P m) = Inl e)
      = ((peerConnection m = None \<and> e = NotInitialized)
         \<or> (\<exists>pc pc1 r. peerConnection m = Some pc \<and> pc_createOffer P pc = (Inl r, pc1)
               \<and> e = Rejected r)
         \<or> (\<exists>pc pc1 pc2 offer r. peerConnection m = Some pc \<and> pc_createOffer P pc = (Inr offer, pc1)
               \<and> pc_setLocalDescription P offer pc1 = (Some r, pc2) \<and> e = Rejected r)))"
  by (auto simp add: createOffer_def split: option.splits prod.splits sum.splits)

text \<open>
  C3 as stated (a second \<^verbatim>\<open>createOffer\<close> fails with \<^verbatim>\<open>InvalidState\<close>) fails on the sample
  call: the first and the second call both return an offer.
\<close>

theorem createOffer_twice_counterexample:
  "fst (createOffer browser (webrtcRef call_started)) = Inr \<lparr>sdpType = SdpOffer, sdp = ''v=0 offer''\<rparr>
   \<and> fst (createOffer browser (snd (snd (createOffer browser (webrtcRef call_started)))))
       = Inr \<lparr>sdpType = SdpOffer, sdp = ''v=0 offer''\<rparr>"
  by (simp add: call_started_eq createOffer_def browser_def browser_createOffer_def
      browser_setLocalDescription_def)


section \<open>Inbound frames\<close>

text \<open>
  C4, as the code has it. On a frame that is not JSON both \<^verbatim>\<open>onmessage\<close> handlers throw the
  \<^verbatim>\<open>SyntaxError\<close> of \<^verbatim>\<open>JSON.parse\<close>: the code neither catches nor logs it. The registered
  handler is not called, no call is made on any browser object and the state is unchanged,
  so the socket stays as it was and a later frame is handled as if this one had not
  arrived. A frame that is JSON is passed to the registered handler.
\<close>

theorem unparseable_payload_throws:
  "signaling_onmessage P room (NotJson t) s = (Inl SyntaxError, [], s)
   \<and> captions_onmessage (NotJson t) s = (Inl SyntaxError, [], s)
   \<and> signaling_onmessage P room (Json message) s
       = (Inr (), handleSignalingMessage P room message s)
   \<and> captions_onmessage (Json caption) s = (Inr (), [], handleCaption caption s)"
  by (simp add: signaling_onmessage_def captions_onmessage_def split: prod.splits)

text \<open>
  C4 as stated (dropped and logged, no error surfaced) fails on the open sample call with
  the frame \<^verbatim>\<open>{\<close>: each handler ends with a \<^verbatim>\<open>SyntaxError\<close> and has logged nothing.
\<close>

theorem unparseable_payload_counterexample:
  "fst (signaling_onmessage browser ''room-1'' (NotJson ''{'') call_open) = Inl SyntaxError
   \<and> fst (snd (signaling_onmessage browser ''room-1'' (NotJson ''{'') call_open)) = []
   \<and> fst (captions_onmessage (NotJson ''{'') call_open) = Inl SyntaxError
   \<and> fst (snd (captions_onmessage (NotJson ''{'') call_open)) = []"
  by (simp add: signaling_onmessage_def captions_onmessage_def)


section \<open>Envelopes of another room\<close>

text \<open>
  C2, as the code has it. \<^verbatim>\<open>handleSignalingMessage\<close> never reads \<^verbatim>\<open>message.roomId\<close>: an
  envelope is handled the same way whatever room it names, so an envelope of a foreign room
  is handled like one of the session's room.
\<close>

theorem roomId_not_read:
  "handleSignalingMessage P room (message\<lparr>roomId := r\<rparr>) s = handleSignalingMessage P room message s
   \<and> signaling_onmessage P room (Json (message\<lparr>roomId := r\<rparr>)) s
       = signaling_onmessage P room (Json message) s"
proof -
  have "handleSignalingMessage P room (message\<lparr>roomId := r\<rparr>) s = handleSignalingMessage P room message s"
    by (cases "type message") (simp_all add: handleSignalingMessage_def)
  then show ?thesis by (simp add: signaling_onmessage_def)
qed

text \<open>
  C2 as stated (a foreign-room envelope is dropped without a state change) fails on the
  sample call in room \<^verbatim>\<open>room-1\<close> that has a remote description: an \<^verbatim>\<open>ice-candidate\<close>
  envelope for \<^verbatim>\<open>room-2\<close> is passed to the peer connection, which applies the candidate.
\<close>

theorem foreign_room_counterexample:
  "handleSignalingMessage browser ''room-1''
      \<lparr>type = IceCandidate, roomId = ''room-2'',
       data = Candidate \<lparr>candidate = ''c1'', sdpMLineIndex = 0\<rparr>\<rparr> call_answered
     = ([PcAddIceCandidate \<lparr>candidate = ''c1'', sdpMLineIndex = 0\<rparr>],
        call_answered\<lparr>webrtcRef :=
          \<lparr>peerConnection = Some \<lparr>signalingState = Stable,
             remoteDescription = Some \<lparr>sdpType = SdpOffer, sdp = ''v=0 remote''\<rparr>,
             iceCandidates = [\<lparr>candidate = ''c1'', sdpMLineIndex = 0\<rparr>], senders = [1, 2]\<rparr>,
           localStream = Some camera\<rparr>\<rparr>)
   \<and> snd (handleSignalingMessage browser ''room-1''
            \<lparr>type = IceCandidate, roomId = ''room-2'',
             data = Candidate \<lparr>candidate = ''c1'', sdpMLineIndex = 0\<rparr>\<rparr> call_answered)
       \<noteq> call_answered"
  by (simp add: call_answered_eq call_open_eq handleSignalingMessage_def addIceCandidate_def
      new_RTCIceCandidate_def browser_def browser_addIceCandidate_def)


section \<open>What the handler passes on\<close>

lemma createOffer_obs:
  "filter is_remote_input (fst (snd (createOffer P m))) = []"
  "peerConnection m \<noteq> None \<Longrightarrow> peerConnection (snd (snd (createOffer P m))) \<noteq> None"
  "filter is_signaling_send (fst (snd (createOffer P m))) = []"
  by (simp_all add: createOffer_def is_remote_input_def is_signaling_send_def
      split: option.splits prod.splits sum.splits)

lemma createAnswer_obs:
  "filter is_remote_input (fst (snd (createAnswer P m))) = []"
  "peerConnection m \<noteq> None \<Longrightarrow> peerConnection (snd (snd (createAnswer P m))) \<noteq> None"
  "filter is_signaling_send (fst (snd (createAnswer P m))) = []"
  by (simp_all add: createAnswer_def is_remote_input_def is_signaling_send_def
      split: option.splits prod.splits sum.splits)

lemma setRemoteDescription_obs:
  "peerConnection m \<noteq> None \<Longrightarrow>
     filter is_remote_input (fst (snd (setRemoteDescription P d m)))
       = (case new_RTCSessionDescription d of Inl e \<Rightarrow> [] | Inr x \<Rightarrow> [PcSetRemoteDescription x])"
  "peerConnection m \<noteq> None \<Longrightarrow> peerConnection (snd (snd (setRemoteDescription P d m))) \<noteq> None"
  "filter is_signaling_send (fst (snd (setRemoteDescription P d m))) = []"
  by (simp_all add: setRemoteDescription_def is_remote_input_def is_signaling_send_def
      split: option.splits prod.splits sum.splits)

lemma addIceCandidate_obs:
  "peerConnection m \<noteq> None \<Longrightarrow>
     filter is_remote_input (fst (snd (addIceCandidate P c m)))
       = (case new_RTCIceCandidate c of Inl e \<Rightarrow> [] | Inr x \<Rightarrow> [PcAddIceCandidate x])"
  "peerConnection m \<noteq> None \<Longrightarrow> peerConnection (snd (snd (addIceCandidate P c m))) \<noteq> None"
  by (simp_all add: addIceCandidate_def is_remote_input_def
      split: option.splits prod.splits sum.splits)

lemma sendSignaling_obs:
  "filter is_remote_input (fst (sendSignaling message w)) = []"
  "snd (sendSignaling message w) = w"
  "filter is_signaling_send (fst (sendSignaling message w)) = []
   \<or> filter is_signaling_send (fst (sendSignaling message w)) = [WsSendSignaling (Json message)]"
  by (simp_all add: sendSignaling_def is_remote_input_def is_signaling_send_def JSON_stringify_def)

lemma handle_PeerJoined_eq:
  assumes "type message = PeerJoined"
  shows "handleSignalingMessage P room message s =
     (case fst (createOffer P (webrtcRef s)) of
        Inl error \<Rightarrow>
          (fst (snd (createOffer P (webrtcRef s))) @ [ConsoleError error],
           s\<lparr>webrtcRef := snd (snd (createOffer P (webrtcRef s)))\<rparr>)
      | Inr offer \<Rightarrow>
          (fst (snd (createOffer P (webrtcRef s)))
             @ fst (sendSignaling \<lparr>type = Offer, roomId = room, data = Description offer\<rparr> (wsRef s)),
           s\<lparr>webrtcRef := snd (snd (createOffer P (webrtcRef s)))\<rparr>))"
  using assms
  by (simp add: handleSignalingMessage_def sendSignaling_def split: prod.splits sum.splits)

lemma handle_Offer_eq:
  assumes "type message = Offer"
  shows "handleSignalingMessage P room message s =
     (case fst (setRemoteDescription P (data message) (webrtcRef s)) of
        Inl error \<Rightarrow>
          (fst (snd (setRemoteDescription P (data message) (webrtcRef s))) @ [ConsoleError error],
           s\<lparr>webrtcRef := snd (snd (setRemoteDescription P (data message) (webrtcRef s)))\<rparr>)
      | Inr u \<Rightarrow>
          (case fst (createAnswer P (snd (snd (setRemoteDescription P (data message) (webrtcRef s))))) of
             Inl error \<Rightarrow>
               (fst (snd (setRemoteDescription P (data message) (webrtcRef s)))
                  @ fst (snd (createAnswer P (snd (snd (setRemoteDescription P (data message) (webrtcRef s))))))
                  @ [ConsoleError error],
                s\<lparr>webrtcRef :=
                    snd (snd (createAnswer P (snd (snd (setRemoteDescription P (data message) (webrtcRef s))))))\<rparr>)
           | Inr answer \<Rightarrow>
               (fst (snd (setRemoteDescription P (data message) (webrtcRef s)))
                  @ fst (snd (createAnswer P (snd (snd (setRemoteDescription P (data message) (webrtcRef s))))))
                  @ fst (sendSignaling \<lparr>type = Answer, roomId = room, data = Description answer\<rparr> (wsRef s)),
                s\<lparr>webrtcRef :=
                    snd (snd (createAnswer P (snd (snd (setRemoteDescription P (data message) (webrtcRef s))))))\<rparr>)))"
proof -
  obtain r es m where a: "setRemoteDescription P (data message) (webrtcRef s) = (r, es, m)"
    using prod_cases3 by blast
  obtain r2 es2 m2 where b: "createAnswer P m = (r2, es2, m2)"
    using prod_cases3 by blast
  show ?thesis
    using assms
    by (cases r; cases r2) (simp_all add: handleSignalingMessage_def sendSignaling_def a b)
qed

lemma handle_Answer_eq:
  assumes "type message = Answer"
  shows "handleSignalingMessage P room message s =
     (fst (snd (setRemoteDescription P (data message) (webrtcRef s)))
        @ (case fst (setRemoteDescription P (data message) (webrtcRef s)) of
             Inl error \<Rightarrow> [ConsoleError error] | Inr u \<Rightarrow> []),
      s\<lparr>webrtcRef := snd (snd (setRemoteDescription P (data message) (webrtcRef s)))\<rparr>)"
  using assms
  by (simp add: handleSignalingMessage_def split: prod.splits sum.splits)

lemma handle_IceCandidate_eq:
  assumes "type message = IceCandidate"
  shows "handleSignalingMessage P room message s =
     (fst (snd (addIceCandidate P (data message) (webrtcRef s)))
        @ (case fst (addIceCandidate P (data message) (webrtcRef s)) of
             Inl error \<Rightarrow> [ConsoleError error] | Inr u \<Rightarrow> []),
      s\<lparr>webrtcRef := snd (snd (addIceCandidate P (data message) (webrtcRef s)))\<rparr>)"
  using assms
  by (simp add: handleSignalingMessage_def split: prod.splits sum.splits)

lemma handle_other_eq:
  "type message = JoinRoom \<Longrightarrow> handleSignalingMessage P room message s = ([], s)"
  "type message = PeerLeft \<Longrightarrow> handleSignalingMessage P room message s =
     ([Toast ''Peer disconnected''], s\<lparr>isConnected := False, connectionStatus := disconnected\<rparr>)"
  by (simp_all add: handleSignalingMessage_def)

lemma is_remote_input_simps [simp]:
  "\<not> is_remote_input (ConsoleError e)" "\<not> is_remote_input (Toast t)"
  by (simp_all add: is_remote_input_def)

lemma is_signaling_send_simps [simp]:
  "\<not> is_signaling_send (ConsoleError e)" "is_signaling_send (WsSendSignaling x)"
  by (simp_all add: is_signaling_send_def)

lemma handle_keeps_peerConnection:
  assumes "peerConnection (webrtcRef s) \<noteq> None"
  shows "peerConnection (webrtcRef (snd (handleSignalingMessage P room message s))) \<noteq> None"
proof (cases "type message")
  case Offer
  then show ?thesis
    using assms
    by (simp add: handle_Offer_eq setRemoteDescription_obs(2) createAnswer_obs(2) del: not_None_eq
        split: sum.splits)
next
  case Answer
  then show ?thesis
    using assms by (simp add: handle_Answer_eq setRemoteDescription_obs(2) del: not_None_eq)
next
  case IceCandidate
  then show ?thesis
    using assms by (simp add: handle_IceCandidate_eq addIceCandidate_obs(2) del: not_None_eq)
next
  case JoinRoom
  then show ?thesis using assms by (simp add: handle_other_eq)
next
  case PeerJoined
  then show ?thesis
    using assms by (simp add: handle_PeerJoined_eq createOffer_obs(2) del: not_None_eq split: sum.splits)
next
  case PeerLeft
  then show ?thesis using assms by (simp add: handle_other_eq)
qed

lemma handle_remote_input:
  assumes "peerConnection (webrtcRef s) \<noteq> None"
  shows "filter is_remote_input (fst (handleSignalingMessage P room message s)) = remote_input message"
proof (cases "type message")
  case Offer
  then show ?thesis
    using assms
    by (simp add: handle_Offer_eq remote_input_def setRemoteDescription_obs(1) createAnswer_obs(1)
        sendSignaling_obs(1) split: sum.splits)
next
  case Answer
  then show ?thesis
    using assms
    by (simp add: handle_Answer_eq remote_input_def setRemoteDescription_obs(1) split: sum.splits)
next
  case IceCandidate
  then show ?thesis
    using assms
    by (simp add: handle_IceCandidate_eq remote_input_def addIceCandidate_obs(1) split: sum.splits)
next
  case JoinRoom
  then show ?thesis by (simp add: handle_other_eq remote_input_def)
next
  case PeerJoined
  then show ?thesis
    by (simp add: handle_PeerJoined_eq remote_input_def createOffer_obs(1) sendSignaling_obs(1)
        split: sum.splits)
next
  case PeerLeft
  then show ?thesis by (simp add: handle_other_eq remote_input_def)
qed

lemma handle_all_remote_input:
  assumes "peerConnection (webrtcRef s) \<noteq> None"
  shows "filter is_remote_input (fst (handleSignalingMessages P room messages s))
           = concat (map remote_input messages)"
  using assms
proof (induction messages arbitrary: s)
  case Nil
  then show ?case by simp
next
  case (Cons message rest)
  obtain es s1 where h: "handleSignalingMessage P room message s = (es, s1)"
    by (cases "handleSignalingMessage P room message s")
  obtain es2 s2 where r: "handleSignalingMessages P room rest s1 = (es2, s2)"
    by (cases "handleSignalingMessages P room rest s1")
  have "peerConnection (webrtcRef s1) \<noteq> None"
    using handle_keeps_peerConnection [OF Cons.prems, of P room message] h by simp
  then have "filter is_remote_input es2 = concat (map remote_input rest)"
    using Cons.IH [of s1] r by simp
  moreover have "filter is_remote_input es = remote_input message"
    using handle_remote_input [OF Cons.prems, of P room message] h by simp
  ultimately show ?case using h r by simp
qed

lemma no_peerConnection:
  assumes "peerConnection m = None"
  shows "createOffer P m = (Inl NotInitialized, [], m)"
    and "createAnswer P m = (Inl NotInitialized, [], m)"
    and "setRemoteDescription P d m = (Inl NotInitialized, [], m)"
    and "addIceCandidate P c m = (Inl NotInitialized, [], m)"
  using assms
  by (simp_all add: createOffer_def createAnswer_def setRemoteDescription_def addIceCandidate_def)

lemma handle_no_peerConnection:
  assumes "peerConnection (webrtcRef s) = None"
  shows "filter is_remote_input (fst (handleSignalingMessage P room message s)) = []
         \<and> filter is_signaling_send (fst (handleSignalingMessage P room message s)) = []
         \<and> peerConnection (webrtcRef (snd (handleSignalingMessage P room message s))) = None"
  using assms
  by (cases "type message")
     (simp_all add: handle_PeerJoined_eq handle_Offer_eq handle_Answer_eq handle_IceCandidate_eq
       handle_other_eq no_peerConnection is_signaling_send_def)

lemma handle_all_no_peerConnection:
  assumes "peerConnection (webrtcRef s) = None"
  shows "filter is_remote_input (fst (handleSignalingMessages P room messages s)) = []"
  using assms
proof (induction messages arbitrary: s)
  case Nil
  then show ?case by simp
next
  case (Cons message rest)
  obtain es s1 where h: "handleSignalingMessage P room message s = (es, s1)"
    by (cases "handleSignalingMessage P room message s")
  obtain es2 s2 where r: "handleSignalingMessages P room rest s1 = (es2, s2)"
    by (cases "handleSignalingMessages P room rest s1")
  have one: "filter is_remote_input es = []" and still: "peerConnection (webrtcRef s1) = None"
    using handle_no_peerConnection [OF Cons.prems, of P room message] h by simp_all
  have "filter is_remote_input es2 = []"
    using Cons.IH [OF still] r by simp
  with one show ?case using h r by simp
qed

lemma handle_IceCandidate:
  assumes "type message = IceCandidate" "peerConnection (webrtcRef s) = Some pc"
    "data message = Candidate c"
  shows "handleSignalingMessage P room message s =
           (PcAddIceCandidate c
              # (case fst (pc_addIceCandidate P c pc) of
                   None \<Rightarrow> [] | Some e \<Rightarrow> [ConsoleError (Rejected e)]),
            s\<lparr>webrtcRef := (webrtcRef s)\<lparr>peerConnection := Some (snd (pc_addIceCandidate P c pc))\<rparr>\<rparr>)"
  using assms
  by (cases "pc_addIceCandidate P c pc"; cases "fst (pc_addIceCandidate P c pc)")
     (simp_all add: handle_IceCandidate_eq addIceCandidate_def new_RTCIceCandidate_def)

lemma handle_IceCandidate_refused:
  assumes "type message = IceCandidate" "peerConnection (webrtcRef s) = Some pc"
    "new_RTCIceCandidate (data message) = Inl e"
  shows "handleSignalingMessage P room message s = ([ConsoleError (Rejected e)], s)"
  using assms by (simp add: handle_IceCandidate_eq addIceCandidate_def)

lemma handle_Answer:
  assumes "type message = Answer" "peerConnection (webrtcRef s) = Some pc"
    "data message = Description d"
  shows "handleSignalingMessage P room message s =
           (PcSetRemoteDescription d
              # (case fst (pc_setRemoteDescription P d pc) of
                   None \<Rightarrow> [] | Some e \<Rightarrow> [ConsoleError (Rejected e)]),
            s\<lparr>webrtcRef := (webrtcRef s)\<lparr>peerConnection := Some (snd (pc_setRemoteDescription P d pc))\<rparr>\<rparr>)"
  using assms
  by (cases "pc_setRemoteDescription P d pc"; cases "fst (pc_setRemoteDescription P d pc)")
     (simp_all add: handle_Answer_eq setRemoteDescription_def new_RTCSessionDescription_def)








section \<open>Remote candidates\<close>

text \<open>
  C1, as the code has it. There is no candidate buffer. While a peer connection exists,
  \<^verbatim>\<open>addIceCandidate\<close> hands each candidate that passes the \<^verbatim>\<open>RTCIceCandidate\<close> constructor
  to the peer connection when its envelope is handled, whether or not a remote description
  is set: the candidates and remote descriptions that reach the peer connection are those of
  the envelopes whose payload passes its constructor, each once and in the order the
  envelopes arrived. While no peer connection exists nothing reaches one. Handling an
  \<^verbatim>\<open>ice-candidate\<close> envelope that carries a candidate is one call of \<^verbatim>\<open>addIceCandidate\<close>,
  logged when the peer connection rejects it, and changes nothing but the peer connection;
  when the constructor refuses the payload the error is logged and nothing else happens.
  Handling an \<^verbatim>\<open>answer\<close> envelope that carries a description is one call of
  \<^verbatim>\<open>setRemoteDescription\<close> and applies no earlier candidate.
\<close>

theorem candidates_forwarded_on_receipt:
  "(peerConnection (webrtcRef s) \<noteq> None \<longrightarrow>
      filter is_remote_input (fst (handleSignalingMessages P room messages s))
        = concat (map remote_input messages))
   \<and> (peerConnection (webrtcRef s) = None \<longrightarrow>
        filter is_remote_input (fst (handleSignalingMessages P room messages s)) = [])
   \<and> (type message = IceCandidate \<and> peerConnection (webrtcRef s) = Some pc
        \<and> data message = Candidate c \<longrightarrow>
        handleSignalingMessage P room message s =
          (PcAddIceCandidate c
             # (case fst (pc_addIceCandidate P c pc) of
                  None \<Rightarrow> [] | Some e \<Rightarrow> [ConsoleError (Rejected e)]),
           s\<lparr>webrtcRef := (webrtcRef s)\<lparr>peerConnection := Some (snd (pc_addIceCandidate P c pc))\<rparr>\<rparr>))
   \<and> (type message = IceCandidate \<and> peerConnection (webrtcRef s) = Some pc
        \<and> new_RTCIceCandidate (data message) = Inl e \<longrightarrow>
        handleSignalingMessage P room message s = ([ConsoleError (Rejected e)], s))
   \<and> (type message = Answer \<and> peerConnection (webrtcRef s) = Some pc
        \<and> data message = Description d \<longrightarrow>
        handleSignalingMessage P room message s =
          (PcSetRemoteDescription d
             # (case fst (pc_setRemoteDescription P d pc) of
                  None \<Rightarrow> [] | Some e \<Rightarrow> [ConsoleError (Rejected e)]),
           s\<lparr>webrtcRef := (webrtcRef s)\<lparr>peerConnection := Some (snd (pc_setRemoteDescription P d pc))\<rparr>\<rparr>))"
  using handle_all_remote_input [of s P room messages] handle_all_no_peerConnection [of s P room messages]
    handle_IceCandidate [of message s pc c P room] handle_IceCandidate_refused [of message s pc e P room]
    handle_Answer [of message s pc d P room]
  by blast

theorem candidates_forwarded_on_receipt_witness:
  "peerConnection (webrtcRef call_offering) \<noteq> None
   \<and> filter is_remote_input
        (fst (handleSignalingMessages browser ''room-1''
           [\<lparr>type = IceCandidate, roomId = ''room-1'',
             data = Candidate \<lparr>candidate = ''c1'', sdpMLineIndex = 0\<rparr>\<rparr>,
            \<lparr>type = IceCandidate, roomId = ''room-1'', data = Undefined\<rparr>,
            \<lparr>type = Answer, roomId = ''room-1'',
             data = Description \<lparr>sdpType = SdpAnswer, sdp = ''v=0 remote''\<rparr>\<rparr>,
            \<lparr>type = IceCandidate, roomId = ''room-1'',
             data = Candidate \<lparr>candidate = ''c2'', sdpMLineIndex = 0\<rparr>\<rparr>] call_offering))
       = [PcAddIceCandidate \<lparr>candidate = ''c1'', sdpMLineIndex = 0\<rparr>,
          PcSetRemoteDescription \<lparr>sdpType = SdpAnswer, sdp = ''v=0 remote''\<rparr>,
          PcAddIceCandidate \<lparr>candidate = ''c2'', sdpMLineIndex = 0\<rparr>]
   \<and> peerConnection (webrtcRef (snd (cleanup call_open))) = None
   \<and> filter is_remote_input
        (fst (handleSignalingMessages browser ''room-1''
           [\<lparr>type = IceCandidate, roomId = ''room-1'',
             data = Candidate \<lparr>candidate = ''c1'', sdpMLineIndex = 0\<rparr>\<rparr>] (snd (cleanup call_open))))
       = []
   \<and> handleSignalingMessage browser ''room-1''
        \<lparr>type = IceCandidate, roomId = ''room-1'',
         data = Candidate \<lparr>candidate = ''c1'', sdpMLineIndex = 0\<rparr>\<rparr> call_answered
       = ([PcAddIceCandidate \<lparr>candidate = ''c1'', sdpMLineIndex = 0\<rparr>],
          call_answered\<lparr>webrtcRef :=
            \<lparr>peerConnection = Some \<lparr>signalingState = Stable,
               remoteDescription = Some \<lparr>sdpType = SdpOffer, sdp = ''v=0 remote''\<rparr>,
               iceCandidates = [\<lparr>candidate = ''c1'', sdpMLineIndex = 0\<rparr>], senders = [1, 2]\<rparr>,
             localStream = Some camera\<rparr>\<rparr>)
   \<and> handleSignalingMessage browser ''room-1''
        \<lparr>type = IceCandidate, roomId = ''room-1'', data = Undefined\<rparr> call_answered
       = ([ConsoleError (Rejected TypeError)], call_answered)
   \<and> handleSignalingMessage browser ''room-1''
        \<lparr>type = Answer, roomId = ''room-1'',
         data = Description \<lparr>sdpType = SdpAnswer, sdp = ''v=0 remote''\<rparr>\<rparr> call_offering
       = ([PcSetRemoteDescription \<lparr>sdpType = SdpAnswer, sdp = ''v=0 remote''\<rparr>],
          call_offering\<lparr>webrtcRef :=
            \<lparr>peerConnection = Some \<lparr>signalingState = Stable,
               remoteDescription = Some \<lparr>sdpType = SdpAnswer, sdp = ''v=0 remote''\<rparr>,
               iceCandidates = [], senders = [1, 2]\<rparr>,
             localStream = Some camera\<rparr>\<rparr>)"
  using candidates_forwarded_on_receipt
      [where s = call_offering and P = browser and room = "''room-1''"
        and messages = "[\<lparr>type = IceCandidate, roomId = ''room-1'',
             data = Candidate \<lparr>candidate = ''c1'', sdpMLineIndex = 0\<rparr>\<rparr>,
            \<lparr>type = IceCandidate, roomId = ''room-1'', data = Undefined\<rparr>,
            \<lparr>type = Answer, roomId = ''room-1'',
             data = Description \<lparr>sdpType = SdpAnswer, sdp = ''v=0 remote''\<rparr>\<rparr>,
            \<lparr>type = IceCandidate, roomId = ''room-1'',
             data = Candidate \<lparr>candidate = ''c2'', sdpMLineIndex = 0\<rparr>\<rparr>]"
        and message = "\<lparr>type = Answer, roomId = ''room-1'',
             data = Description \<lparr>sdpType = SdpAnswer, sdp = ''v=0 remote''\<rparr>\<rparr>"
        and pc = "\<lparr>signalingState = HaveLocalOffer, remoteDescription = None, iceCandidates = [],
                  senders = [1, 2]\<rparr>"
        and d = "\<lparr>sdpType = SdpAnswer, sdp = ''v=0 remote''\<rparr>"]
    candidates_forwarded_on_receipt
      [where s = "snd (cleanup call_open)" and P = browser and room = "''room-1''"
        and messages = "[\<lparr>type = IceCandidate, roomId = ''room-1'',
             data = Candidate \<lparr>candidate = ''c1'', sdpMLineIndex = 0\<rparr>\<rparr>]"]
    candidates_forwarded_on_receipt
      [where s = call_answered and P = browser and room = "''room-1''" and messages = "[]"
        and message = "\<lparr>type = IceCandidate, roomId = ''room-1'',
             data = Candidate \<lparr>candidate = ''c1'', sdpMLineIndex = 0\<rparr>\<rparr>"
        and c = "\<lparr>candidate = ''c1'', sdpMLineIndex = 0\<rparr>"
        and pc = "\<lparr>signalingState = Stable,
               remoteDescription = Some \<lparr>sdpType = SdpOffer, sdp = ''v=0 remote''\<rparr>,
               iceCandidates = [], senders = [1, 2]\<rparr>"]
    candidates_forwarded_on_receipt
      [where s = call_answered and P = browser and room = "''room-1''" and messages = "[]"
        and message = "\<lparr>type = IceCandidate, roomId = ''room-1'', data = Undefined\<rparr>"
        and e = TypeError
        and pc = "\<lparr>signalingState = Stable,
               remoteDescription = Some \<lparr>sdpType = SdpOffer, sdp = ''v=0 remote''\<rparr>,
               iceCandidates = [], senders = [1, 2]\<rparr>"]
  by (simp add: call_offering_eq call_answered_eq call_open_eq snd_cleanup remote_input_def
      new_RTCIceCandidate_def new_RTCSessionDescription_def browser_defs)

text \<open>
  C1 as stated (a candidate that arrives before the remote description is buffered and
  applied once the description is set) fails on the sample call that has sent its offer: the
  candidate is handed over at once, the peer connection rejects it for want of a remote
  description, the rejection is logged, and after the answer is set the peer connection has
  applied no candidate.
\<close>

theorem early_candidate_counterexample:
  "handleSignalingMessages browser ''room-1''
      [\<lparr>type = IceCandidate, roomId = ''room-1'',
        data = Candidate \<lparr>candidate = ''c1'', sdpMLineIndex = 0\<rparr>\<rparr>,
       \<lparr>type = Answer, roomId = ''room-1'',
        data = Description \<lparr>sdpType = SdpAnswer, sdp = ''v=0 remote''\<rparr>\<rparr>] call_offering
     = ([PcAddIceCandidate \<lparr>candidate = ''c1'', sdpMLineIndex = 0\<rparr>,
         ConsoleError (Rejected InvalidStateError),
         PcSetRemoteDescription \<lparr>sdpType = SdpAnswer, sdp = ''v=0 remote''\<rparr>],
        call_offering\<lparr>webrtcRef :=
          \<lparr>peerConnection = Some \<lparr>signalingState = Stable,
             remoteDescription = Some \<lparr>sdpType = SdpAnswer, sdp = ''v=0 remote''\<rparr>,
             iceCandidates = [], senders = [1, 2]\<rparr>,
           localStream = Some camera\<rparr>\<rparr>)"
  by (simp add: call_offering_eq call_open_eq handleSignalingMessage_def manager_defs browser_defs)


section \<open>Answering an offer\<close>




end
